theory Spec2Isabelle
  imports Main "HOL-Library.Word"
begin

section \<open>Data model of the surface buffer relay\<close>

text \<open>
  The relay (class \<open>SurfaceBufferRelay\<close>) sits between the camera's consumer surface
  (upstream) and the encoder's surface (downstream). Both surfaces, the buffers and the
  callback are collaborators outside the class: their answers are inputs of the model
  (\<open>Env\<close>), and every call the relay issues to them is recorded, in program order, in the
  list of events each operation returns.
\<close>

type_synonym byte = "8 word"
type_synonym IConsumerSurface = nat
type_synonym IBufferProducer = nat
type_synonym Surface = nat
type_synonym ImuDataCallback = nat

text \<open>
  Modelled from the spec: the result type \<open>GSError\<close> of the surface runtime, declared in
  a header outside the relay. The relay only ever compares a result with \<open>GSERROR_OK\<close>;
  every other code is \<open>GSERROR_FAILED\<close> with its number.
\<close>

datatype GSError = GSERROR_OK | GSERROR_FAILED int

text \<open>
  Modelled from the spec: the result codes of \<open>distributed_camera_errno.h\<close> that the relay
  returns ("initialization failure", "invalid argument" and "operation failed" classes,
  and success), as an enumeration of distinct codes.
\<close>

datatype DCameraErr = DCAMERA_OK | DCAMERA_INIT_ERR | DCAMERA_BAD_OPERATE | DCAMERA_BAD_VALUE

text \<open>
  Modelled from the spec: the usage flags handed to \<open>SetDefaultUsage\<close> (CPU read and
  DMA-capable memory), declared by the surface runtime.
\<close>

datatype BufferUsage = BUFFER_USAGE_CPU_READ | BUFFER_USAGE_MEM_DMA

text \<open>
  A \<open>SurfaceBuffer\<close> as the relay sees it: the address of its backing memory (the key of
  the registry), its extent, and what \<open>GetMetadata\<close> answers for a key (result code and
  the bytes written to the output vector). A null \<open>sptr\<close> is \<open>None\<close>.
\<close>

record SurfaceBuffer =
  GetVirAddr :: nat
  GetWidth :: int
  GetHeight :: int
  GetMetadata :: "32 word \<Rightarrow> GSError \<times> byte list"

datatype Rect = Rect int int int int

datatype BufferFlushConfig = BufferFlushConfig Rect int

definition ATTRKEY_ROI_METADATA :: "32 word" where
  "ATTRKEY_ROI_METADATA = 4101"

definition IMU_DATA_SIZE :: nat where
  "IMU_DATA_SIZE = 768"

text \<open>
  The calls that leave the relay: methods of the camera consumer surface (\<open>E_Create\<close> up
  to \<open>E_GetProducer\<close>, \<open>E_AcquireBuffer\<close>, \<open>E_ReleaseBuffer\<close>,
  \<open>E_UnregisterConsumerListener\<close>), of the encoder surface
  (\<open>E_RegisterReleaseListener\<close>, \<open>E_AttachAndFlushBuffer\<close>, \<open>E_RequestAndDetachBuffer\<close>),
  the \<open>close\<close> of a fence descriptor and the invocation of the IMU callback with the frame
  index and the bytes passed to it.
\<close>

datatype Event =
    E_Create
  | E_SetDefaultWidthAndHeight "32 word" "32 word"
  | E_SetDefaultFormat int
  | E_SetDefaultUsage "BufferUsage list"
  | E_RegisterConsumerListener
  | E_GetProducer
  | E_CreateSurfaceAsProducer IBufferProducer
  | E_RegisterReleaseListener
  | E_AcquireBuffer
  | E_close int
  | E_imuCallback ImuDataCallback "32 word" "byte list"
  | E_AttachAndFlushBuffer SurfaceBuffer int BufferFlushConfig
  | E_ReleaseBuffer SurfaceBuffer int
  | E_RequestAndDetachBuffer SurfaceBuffer int
  | E_UnregisterConsumerListener

text \<open>The members of the class, named as in the header without the trailing underscore
  (\<open>isRunning\<close> is \<open>isRunning_\<close>). An empty \<open>std::function\<close> and a null \<open>sptr\<close> are \<open>None\<close>.\<close>

record SurfaceBufferRelay =
  cameraConsumerSurface :: "IConsumerSurface option"
  cameraProducerSurface :: "Surface option"
  encoderSurface :: "Surface option"
  bufferMap :: "nat \<rightharpoonup> SurfaceBuffer"
  imuCallback :: "ImuDataCallback option"
  frameIndex :: "32 word"
  isRunning :: bool

text \<open>
  What the collaborators answer during one operation of the relay. Every operation calls
  each of these methods at most once, so one answer per method is enough.
  \<open>env_AcquireBuffer\<close> gives the result code and the output parameters buffer, fence and
  timestamp as they are after the call.
\<close>

record Env =
  env_Create :: "IConsumerSurface option"
  env_RegisterConsumerListener :: GSError
  env_GetProducer :: "IBufferProducer option"
  env_CreateSurfaceAsProducer :: "Surface option"
  env_RegisterReleaseListener :: GSError
  env_AcquireBuffer :: "GSError \<times> SurfaceBuffer option \<times> int \<times> int"
  env_AttachAndFlushBuffer :: GSError
  env_RequestAndDetachBuffer :: GSError
  env_ReleaseBuffer :: GSError

text \<open>Calling a method through a null \<open>sptr\<close> is the one way an operation can crash.\<close>

datatype Fault = NullPointerDereference

section \<open>Operations\<close>

text \<open>The constructor: frame index 0, not running, everything else empty.\<close>

definition SurfaceBufferRelay_new :: SurfaceBufferRelay where
  "SurfaceBufferRelay_new =
     \<lparr>cameraConsumerSurface = None, cameraProducerSurface = None, encoderSurface = None,
      bufferMap = Map.empty, imuCallback = None, frameIndex = 0, isRunning = False\<rparr>"

text \<open>\<open>Init\<close>: result code, the relay afterwards, and the calls issued.\<close>

definition Init ::
  "Env \<Rightarrow> 32 word \<Rightarrow> 32 word \<Rightarrow> int \<Rightarrow> SurfaceBufferRelay
     \<Rightarrow> DCameraErr \<times> SurfaceBufferRelay \<times> Event list" where
  "Init env width height format s =
     (let s1 = s\<lparr>cameraConsumerSurface := env_Create env\<rparr> in
      if cameraConsumerSurface s1 = None then (DCAMERA_INIT_ERR, s1, [E_Create])
      else
        let ev1 = [E_Create, E_SetDefaultWidthAndHeight width height, E_SetDefaultFormat format,
                   E_SetDefaultUsage [BUFFER_USAGE_CPU_READ, BUFFER_USAGE_MEM_DMA],
                   E_RegisterConsumerListener] in
        if env_RegisterConsumerListener env \<noteq> GSERROR_OK then (DCAMERA_BAD_OPERATE, s1, ev1)
        else
          (case env_GetProducer env of
             None \<Rightarrow> (DCAMERA_INIT_ERR, s1, ev1 @ [E_GetProducer])
           | Some producer \<Rightarrow>
               let s2 = s1\<lparr>cameraProducerSurface := env_CreateSurfaceAsProducer env\<rparr>;
                   ev2 = ev1 @ [E_GetProducer, E_CreateSurfaceAsProducer producer] in
               if cameraProducerSurface s2 = None then (DCAMERA_INIT_ERR, s2, ev2)
               else (DCAMERA_OK, s2\<lparr>isRunning := True\<rparr>, ev2)))"

definition GetCameraSurface :: "SurfaceBufferRelay \<Rightarrow> Surface option" where
  "GetCameraSurface s = cameraProducerSurface s"

definition SetEncoderSurface ::
  "Env \<Rightarrow> Surface option \<Rightarrow> SurfaceBufferRelay \<Rightarrow> DCameraErr \<times> SurfaceBufferRelay \<times> Event list" where
  "SetEncoderSurface env surface s =
     (if surface = None then (DCAMERA_BAD_VALUE, s, [])
      else
        let s1 = s\<lparr>encoderSurface := surface\<rparr> in
        if env_RegisterReleaseListener env \<noteq> GSERROR_OK
        then (DCAMERA_BAD_OPERATE, s1, [E_RegisterReleaseListener])
        else (DCAMERA_OK, s1, [E_RegisterReleaseListener]))"

definition SetImuDataCallback :: "ImuDataCallback option \<Rightarrow> SurfaceBufferRelay \<Rightarrow> SurfaceBufferRelay" where
  "SetImuDataCallback callback s = s\<lparr>imuCallback := callback\<rparr>"

text \<open>\<open>ExtractImuData\<close>: the boolean result and the output vector \<open>imuData\<close>.\<close>

definition ExtractImuData :: "SurfaceBuffer option \<Rightarrow> bool \<times> byte list" where
  "ExtractImuData buffer =
     (case buffer of
        None \<Rightarrow> (False, [])
      | Some b \<Rightarrow>
          let (ret, imuData) = GetMetadata b ATTRKEY_ROI_METADATA in
          if ret \<noteq> GSERROR_OK then (False, imuData)
          else if length imuData \<noteq> IMU_DATA_SIZE then (False, imuData)
          else (True, imuData))"

definition AttachBufferToEncoder ::
  "Env \<Rightarrow> SurfaceBufferRelay \<Rightarrow> SurfaceBuffer option \<Rightarrow> DCameraErr \<times> Event list" where
  "AttachBufferToEncoder env s buffer =
     (case (encoderSurface s, buffer) of
        (Some enc, Some b) \<Rightarrow>
          let flushConfig = BufferFlushConfig (Rect 0 0 (GetWidth b) (GetHeight b)) 0;
              ev = [E_AttachAndFlushBuffer b (- 1) flushConfig] in
          if env_AttachAndFlushBuffer env \<noteq> GSERROR_OK then (DCAMERA_BAD_OPERATE, ev)
          else (DCAMERA_OK, ev)
      | _ \<Rightarrow> (DCAMERA_BAD_VALUE, []))"

definition ReturnBufferToCamera ::
  "Env \<Rightarrow> SurfaceBufferRelay \<Rightarrow> SurfaceBuffer option \<Rightarrow> int \<Rightarrow> DCameraErr \<times> Event list" where
  "ReturnBufferToCamera env s buffer fence =
     (case (cameraConsumerSurface s, buffer) of
        (Some cam, Some b) \<Rightarrow>
          if env_ReleaseBuffer env \<noteq> GSERROR_OK then (DCAMERA_BAD_OPERATE, [E_ReleaseBuffer b fence])
          else (DCAMERA_OK, [E_ReleaseBuffer b fence])
      | _ \<Rightarrow> (DCAMERA_BAD_VALUE, []))"

text \<open>
  \<open>RelayBufferFromCamera\<close>, one forward cycle: acquire, close the fence, extract the IMU
  data and call back, attach to the encoder; on failure of the attach release the buffer
  to the camera with fence \<open>-1\<close>, on success record the buffer and count the frame
  (\<open>frameIndex\<close> is a \<open>uint32_t\<close>: the addition wraps).
\<close>

definition RelayBufferFromCamera :: "Env \<Rightarrow> SurfaceBufferRelay \<Rightarrow> SurfaceBufferRelay \<times> Event list" where
  "RelayBufferFromCamera env s =
     (if cameraConsumerSurface s = None \<or> encoderSurface s = None then (s, [])
      else
        let (ret, buffer, fence, timestamp) = env_AcquireBuffer env in
        if ret \<noteq> GSERROR_OK \<or> buffer = None then (s, [E_AcquireBuffer])
        else
          (case buffer of
             None \<Rightarrow> (s, [E_AcquireBuffer])
           | Some b \<Rightarrow>
               let ev1 = [E_AcquireBuffer] @ (if fence \<ge> 0 then [E_close fence] else []);
                   (extracted, imuData) = ExtractImuData buffer;
                   ev2 = ev1 @
                     (if extracted
                      then (case imuCallback s of
                              None \<Rightarrow> []
                            | Some cb \<Rightarrow> [E_imuCallback cb (frameIndex s) imuData])
                      else []);
                   (r, ev3) = AttachBufferToEncoder env s buffer in
               if r \<noteq> DCAMERA_OK then (s, ev2 @ ev3 @ [E_ReleaseBuffer b (- 1)])
               else
                 let s1 = s\<lparr>bufferMap := (bufferMap s)(GetVirAddr b \<mapsto> b)\<rparr>;
                     s2 = s1\<lparr>frameIndex := frameIndex s1 + 1\<rparr> in
                 (s2, ev2 @ ev3)))"

definition OnBufferAvailable :: "Env \<Rightarrow> SurfaceBufferRelay \<Rightarrow> SurfaceBufferRelay \<times> Event list" where
  "OnBufferAvailable env s =
     (if \<not> isRunning s then (s, []) else RelayBufferFromCamera env s)"

text \<open>
  \<open>OnEncoderReleaseBuffer\<close>, the release callback. After the null check of the buffer it
  calls \<open>RequestAndDetachBuffer\<close> through \<open>encoderSurface\<close> without a check of that
  pointer, returns the buffer to the camera and erases its address from the registry.
\<close>

definition OnEncoderReleaseBuffer ::
  "Env \<Rightarrow> SurfaceBufferRelay \<Rightarrow> SurfaceBuffer option \<Rightarrow> int
     \<Rightarrow> Fault + SurfaceBufferRelay \<times> Event list" where
  "OnEncoderReleaseBuffer env s buffer fence =
     (case buffer of
        None \<Rightarrow> Inr (s, [])
      | Some b \<Rightarrow>
          (case encoderSurface s of
             None \<Rightarrow> Inl NullPointerDereference
           | Some enc \<Rightarrow>
               let ev1 = [E_RequestAndDetachBuffer b fence];
                   (r, ev2) = ReturnBufferToCamera env s buffer fence in
               Inr (s\<lparr>bufferMap := (bufferMap s)(GetVirAddr b := None)\<rparr>, ev1 @ ev2)))"

text \<open>
  \<open>Release\<close>, statement by statement: the relay and the calls issued so far after the
  store to \<open>isRunning\<close>, after the block on \<open>cameraConsumerSurface\<close>, after each of the
  two pointer resets and after the clearing of the registry. \<open>Release\<close> is the last entry.
\<close>

definition Release_trace :: "SurfaceBufferRelay \<Rightarrow> (SurfaceBufferRelay \<times> Event list) list" where
  "Release_trace s =
     (let s1 = s\<lparr>isRunning := False\<rparr>;
          (s2, ev) = (if cameraConsumerSurface s1 \<noteq> None
                      then (s1\<lparr>cameraConsumerSurface := None\<rparr>, [E_UnregisterConsumerListener])
                      else (s1, []));
          s3 = s2\<lparr>cameraProducerSurface := None\<rparr>;
          s4 = s3\<lparr>encoderSurface := None\<rparr>;
          s5 = s4\<lparr>bufferMap := Map.empty\<rparr>
      in [(s1, []), (s2, ev), (s3, ev), (s4, ev), (s5, ev)])"

definition Release :: "SurfaceBufferRelay \<Rightarrow> SurfaceBufferRelay \<times> Event list" where
  "Release s = last (Release_trace s)"

text \<open>The invocations of the IMU callback among the calls of an operation.\<close>

fun is_imuCallback :: "Event \<Rightarrow> bool" where
  "is_imuCallback (E_imuCallback cb i d) = True"
| "is_imuCallback _ = False"

text \<open>
  The IMU callback events of a cycle that acquired buffer \<open>b\<close>: the branch of
  \<open>RelayBufferFromCamera\<close> between the fence and the attach.
\<close>

definition imu_events :: "SurfaceBufferRelay \<Rightarrow> SurfaceBuffer \<Rightarrow> Event list" where
  "imu_events s b =
     (if fst (ExtractImuData (Some b))
      then (case imuCallback s of
              None \<Rightarrow> []
            | Some cb \<Rightarrow> [E_imuCallback cb (frameIndex s) (snd (ExtractImuData (Some b)))])
      else [])"

section \<open>Concrete scenarios\<close>

text \<open>
  A 1920x1080 frame whose metadata attribute 4101 holds 768 bytes, collaborators that
  answer every call with success, and variants where one call fails.
\<close>

definition imu_blob :: "byte list" where
  "imu_blob = replicate 768 0"

definition frame_buffer :: SurfaceBuffer where
  "frame_buffer =
     \<lparr>GetVirAddr = 4096, GetWidth = 1920, GetHeight = 1080,
      GetMetadata = (\<lambda>key. if key = ATTRKEY_ROI_METADATA then (GSERROR_OK, imu_blob)
                            else (GSERROR_FAILED 1, []))\<rparr>"

definition env_ok :: Env where
  "env_ok =
     \<lparr>env_Create = Some 1, env_RegisterConsumerListener = GSERROR_OK, env_GetProducer = Some 2,
      env_CreateSurfaceAsProducer = Some 3, env_RegisterReleaseListener = GSERROR_OK,
      env_AcquireBuffer = (GSERROR_OK, Some frame_buffer, 5, 0),
      env_AttachAndFlushBuffer = GSERROR_OK, env_RequestAndDetachBuffer = GSERROR_OK,
      env_ReleaseBuffer = GSERROR_OK\<rparr>"

definition env_no_buffer :: Env where
  "env_no_buffer = env_ok\<lparr>env_AcquireBuffer := (GSERROR_FAILED 1, None, - 1, 0)\<rparr>"

definition env_attach_fails :: Env where
  "env_attach_fails = env_ok\<lparr>env_AttachAndFlushBuffer := GSERROR_FAILED 2\<rparr>"

definition env_listener_fails :: Env where
  "env_listener_fails = env_ok\<lparr>env_RegisterConsumerListener := GSERROR_FAILED 3\<rparr>"

definition env_bind_fails :: Env where
  "env_bind_fails = env_ok\<lparr>env_RegisterReleaseListener := GSERROR_FAILED 4\<rparr>"

text \<open>
  The relay after \<open>Init\<close>, after \<open>SetEncoderSurface\<close> and \<open>SetImuDataCallback\<close> on top of
  that, and with one frame forwarded and not yet released.
\<close>

definition relay_initialized :: SurfaceBufferRelay where
  "relay_initialized =
     \<lparr>cameraConsumerSurface = Some 1, cameraProducerSurface = Some 3, encoderSurface = None,
      bufferMap = Map.empty, imuCallback = None, frameIndex = 0, isRunning = True\<rparr>"

definition relay_bound :: SurfaceBufferRelay where
  "relay_bound =
     \<lparr>cameraConsumerSurface = Some 1, cameraProducerSurface = Some 3, encoderSurface = Some 4,
      bufferMap = Map.empty, imuCallback = Some 9, frameIndex = 0, isRunning = True\<rparr>"

definition relay_inflight :: SurfaceBufferRelay where
  "relay_inflight =
     \<lparr>cameraConsumerSurface = Some 1, cameraProducerSurface = Some 3, encoderSurface = Some 4,
      bufferMap = [4096 \<mapsto> frame_buffer], imuCallback = Some 9, frameIndex = 1,
      isRunning = True\<rparr>"

definition relay_released :: SurfaceBufferRelay where
  "relay_released =
     \<lparr>cameraConsumerSurface = None, cameraProducerSurface = None, encoderSurface = None,
      bufferMap = Map.empty, imuCallback = Some 9, frameIndex = 1, isRunning = False\<rparr>"

text \<open>
  The initialized relay after a \<open>SetEncoderSurface\<close> whose registration of the release
  listener failed: the surface pointer is stored all the same.
\<close>

definition relay_bind_failed :: SurfaceBufferRelay where
  "relay_bind_failed =
     \<lparr>cameraConsumerSurface = Some 1, cameraProducerSurface = Some 3, encoderSurface = Some 4,
      bufferMap = Map.empty, imuCallback = None, frameIndex = 0, isRunning = True\<rparr>"

section \<open>The scenarios are reachable\<close>

lemma relay_initialized_reached:
  "Init env_ok 1920 1080 0 SurfaceBufferRelay_new =
     (DCAMERA_OK, relay_initialized,
      [E_Create, E_SetDefaultWidthAndHeight 1920 1080, E_SetDefaultFormat 0,
       E_SetDefaultUsage [BUFFER_USAGE_CPU_READ, BUFFER_USAGE_MEM_DMA],
       E_RegisterConsumerListener, E_GetProducer, E_CreateSurfaceAsProducer 2])"
  by (simp add: Init_def SurfaceBufferRelay_new_def env_ok_def relay_initialized_def)

lemma relay_bound_reached:
  "SetImuDataCallback (Some 9) (fst (snd (SetEncoderSurface env_ok (Some 4) relay_initialized)))
     = relay_bound"
  by (simp add: SetEncoderSurface_def SetImuDataCallback_def env_ok_def relay_initialized_def
      relay_bound_def)

section \<open>Helper lemmas\<close>

lemma AttachBufferToEncoder_bound:
  "encoderSurface s = Some enc \<Longrightarrow>
   AttachBufferToEncoder env s (Some b) =
     (if env_AttachAndFlushBuffer env \<noteq> GSERROR_OK then DCAMERA_BAD_OPERATE else DCAMERA_OK,
      [E_AttachAndFlushBuffer b (- 1) (BufferFlushConfig (Rect 0 0 (GetWidth b) (GetHeight b)) 0)])"
  by (simp add: AttachBufferToEncoder_def)

lemma ExtractImuData_Some:
  "GetMetadata b ATTRKEY_ROI_METADATA = (mret, imuData) \<Longrightarrow>
   ExtractImuData (Some b) = (mret = GSERROR_OK \<and> length imuData = 768, imuData)"
  by (simp add: ExtractImuData_def IMU_DATA_SIZE_def)

lemma RelayBufferFromCamera_not_ready:
  "cameraConsumerSurface s = None \<or> encoderSurface s = None \<Longrightarrow>
   RelayBufferFromCamera env s = (s, [])"
  by (simp add: RelayBufferFromCamera_def)

lemma RelayBufferFromCamera_no_buffer:
  assumes "cameraConsumerSurface s = Some cam" and "encoderSurface s = Some enc"
    and "env_AcquireBuffer env = (ret, buffer, fence, timestamp)"
    and "ret \<noteq> GSERROR_OK \<or> buffer = None"
  shows "RelayBufferFromCamera env s = (s, [E_AcquireBuffer])"
  using assms by (auto simp add: RelayBufferFromCamera_def)

lemma RelayBufferFromCamera_acquired:
  assumes "cameraConsumerSurface s = Some cam" and "encoderSurface s = Some enc"
    and "env_AcquireBuffer env = (GSERROR_OK, Some b, fence, timestamp)"
  shows "RelayBufferFromCamera env s =
     (if env_AttachAndFlushBuffer env \<noteq> GSERROR_OK
      then (s, [E_AcquireBuffer] @ (if fence \<ge> 0 then [E_close fence] else []) @ imu_events s b @
                [E_AttachAndFlushBuffer b (- 1) (BufferFlushConfig (Rect 0 0 (GetWidth b) (GetHeight b)) 0),
                 E_ReleaseBuffer b (- 1)])
      else (s\<lparr>bufferMap := (bufferMap s)(GetVirAddr b \<mapsto> b), frameIndex := frameIndex s + 1\<rparr>,
            [E_AcquireBuffer] @ (if fence \<ge> 0 then [E_close fence] else []) @ imu_events s b @
                [E_AttachAndFlushBuffer b (- 1) (BufferFlushConfig (Rect 0 0 (GetWidth b) (GetHeight b)) 0)]))"
proof -
  obtain extracted imuData where ex: "ExtractImuData (Some b) = (extracted, imuData)"
    by (cases "ExtractImuData (Some b)")
  show ?thesis
    using assms ex
    by (simp add: RelayBufferFromCamera_def AttachBufferToEncoder_bound [OF assms(2)] imu_events_def
        split: option.split)
qed

lemma imu_events_filter:
  "filter is_imuCallback (imu_events s b) = imu_events s b"
  "filter (\<lambda>e. \<not> is_imuCallback e) (imu_events s b) = []"
  by (cases "fst (ExtractImuData (Some b))"; cases "imuCallback s"; simp add: imu_events_def)+

lemma imu_events_length: "length (imu_events s b) \<le> 1"
  by (cases "fst (ExtractImuData (Some b))"; cases "imuCallback s"; simp add: imu_events_def)

lemma imu_events_nonempty:
  "imu_events s b \<noteq> [] \<longleftrightarrow> fst (ExtractImuData (Some b)) \<and> imuCallback s \<noteq> None"
  by (cases "fst (ExtractImuData (Some b))"; cases "imuCallback s"; simp add: imu_events_def)

lemma callbacks_acquired:
  assumes "cameraConsumerSurface s = Some cam" and "encoderSurface s = Some enc"
    and "env_AcquireBuffer env = (GSERROR_OK, Some b, fence, timestamp)"
  shows "filter is_imuCallback (snd (RelayBufferFromCamera env s)) = imu_events s b"
  by (simp add: RelayBufferFromCamera_acquired [OF assms] imu_events_filter)

text \<open>Every cycle either stops before a buffer is in hand or acquires one.\<close>

lemma cycle_cases:
  obtains (not_ready) "cameraConsumerSurface s = None \<or> encoderSurface s = None"
  | (no_buffer) cam enc ret buffer fence timestamp where
      "cameraConsumerSurface s = Some cam" "encoderSurface s = Some enc"
      "env_AcquireBuffer env = (ret, buffer, fence, timestamp)"
      "ret \<noteq> GSERROR_OK \<or> buffer = None"
  | (acquired) cam enc b fence timestamp where
      "cameraConsumerSurface s = Some cam" "encoderSurface s = Some enc"
      "env_AcquireBuffer env = (GSERROR_OK, Some b, fence, timestamp)"
proof (cases "cameraConsumerSurface s = None \<or> encoderSurface s = None")
  case True
  then show ?thesis by (rule not_ready)
next
  case False
  then obtain cam enc where ce: "cameraConsumerSurface s = Some cam" "encoderSurface s = Some enc"
    by auto
  obtain ret buffer fence timestamp where acq: "env_AcquireBuffer env = (ret, buffer, fence, timestamp)"
    by (cases "env_AcquireBuffer env")
  show ?thesis
  proof (cases "ret \<noteq> GSERROR_OK \<or> buffer = None")
    case True
    with ce acq show ?thesis by (rule no_buffer)
  next
    case False
    then obtain b where "ret = GSERROR_OK" "buffer = Some b" by auto
    with ce acq show ?thesis by (auto intro: acquired)
  qed
qed

lemma ReturnBufferToCamera_calls:
  "snd (ReturnBufferToCamera env s (Some b) fence) =
     (if cameraConsumerSurface s = None then [] else [E_ReleaseBuffer b fence])"
  by (cases "cameraConsumerSurface s") (simp_all add: ReturnBufferToCamera_def)

lemma OnEncoderReleaseBuffer_bound:
  assumes "encoderSurface s = Some enc"
  shows "OnEncoderReleaseBuffer env s (Some b) fence =
     Inr (s\<lparr>bufferMap := (bufferMap s)(GetVirAddr b := None)\<rparr>,
          E_RequestAndDetachBuffer b fence #
            (if cameraConsumerSurface s = None then [] else [E_ReleaseBuffer b fence]))"
proof -
  obtain r ev2 where rb: "ReturnBufferToCamera env s (Some b) fence = (r, ev2)"
    by (cases "ReturnBufferToCamera env s (Some b) fence")
  with ReturnBufferToCamera_calls [of env s b fence]
  have "ev2 = (if cameraConsumerSurface s = None then [] else [E_ReleaseBuffer b fence])"
    by simp
  with rb assms show ?thesis
    by (simp add: OnEncoderReleaseBuffer_def)
qed

lemma Release_result:
  "Release s =
     (s\<lparr>isRunning := False, cameraConsumerSurface := None, cameraProducerSurface := None,
        encoderSurface := None, bufferMap := Map.empty\<rparr>,
      if cameraConsumerSurface s \<noteq> None then [E_UnregisterConsumerListener] else [])"
  by (simp add: Release_def Release_trace_def Let_def)

section \<open>The forward path\<close>

text \<open>
  Claim C8. A forward cycle whose acquire step fails or yields no buffer aborts
  silently: the relay is left exactly as it was (no registry entry, frame index
  unchanged), the only call issued is the acquire itself, so the IMU callback is not
  invoked, and \<open>RelayBufferFromCamera\<close> has no result through which an error could reach
  the caller.
\<close>

theorem acquire_failure_aborts_silently:
  assumes "cameraConsumerSurface s = Some cam" and "encoderSurface s = Some enc"
    and "env_AcquireBuffer env = (ret, buffer, fence, timestamp)"
    and "ret \<noteq> GSERROR_OK \<or> buffer = None"
  shows "RelayBufferFromCamera env s = (s, [E_AcquireBuffer]) \<and>
         bufferMap (fst (RelayBufferFromCamera env s)) = bufferMap s \<and>
         frameIndex (fst (RelayBufferFromCamera env s)) = frameIndex s \<and>
         filter is_imuCallback (snd (RelayBufferFromCamera env s)) = []"
  by (simp add: RelayBufferFromCamera_no_buffer [OF assms])

theorem acquire_failure_aborts_silently_witness:
  "cameraConsumerSurface relay_bound = Some 1 \<and> encoderSurface relay_bound = Some 4 \<and>
   env_AcquireBuffer env_no_buffer = (GSERROR_FAILED 1, None, - 1, 0) \<and>
   RelayBufferFromCamera env_no_buffer relay_bound = (relay_bound, [E_AcquireBuffer])"
proof -
  have h: "cameraConsumerSurface relay_bound = Some 1" "encoderSurface relay_bound = Some 4"
    "env_AcquireBuffer env_no_buffer = (GSERROR_FAILED 1, None, - 1, 0)"
    by (simp_all add: relay_bound_def env_no_buffer_def env_ok_def)
  have "GSERROR_FAILED 1 \<noteq> GSERROR_OK \<or> (None :: SurfaceBuffer option) = None" by simp
  from acquire_failure_aborts_silently [OF h this] h show ?thesis by simp
qed

text \<open>
  Claim C5. A forward cycle in which the attach-and-flush to the encoder surface fails
  releases the buffer to the camera surface with fence \<open>-1\<close> in that same cycle, as the
  last call after the failed attach, and leaves the relay as it was: registry and frame
  index are unchanged.
\<close>

theorem attach_failure_returns_buffer:
  assumes "cameraConsumerSurface s = Some cam" and "encoderSurface s = Some enc"
    and "env_AcquireBuffer env = (GSERROR_OK, Some b, fence, timestamp)"
    and "env_AttachAndFlushBuffer env \<noteq> GSERROR_OK"
  shows "fst (RelayBufferFromCamera env s) = s \<and>
         bufferMap (fst (RelayBufferFromCamera env s)) = bufferMap s \<and>
         frameIndex (fst (RelayBufferFromCamera env s)) = frameIndex s \<and>
         filter (\<lambda>e. \<not> is_imuCallback e) (snd (RelayBufferFromCamera env s)) =
           [E_AcquireBuffer] @ (if fence \<ge> 0 then [E_close fence] else []) @
           [E_AttachAndFlushBuffer b (- 1) (BufferFlushConfig (Rect 0 0 (GetWidth b) (GetHeight b)) 0),
            E_ReleaseBuffer b (- 1)]"
  using assms(4)
  by (simp add: RelayBufferFromCamera_acquired [OF assms(1-3)] imu_events_filter)

theorem attach_failure_returns_buffer_witness:
  "cameraConsumerSurface relay_bound = Some 1 \<and> encoderSurface relay_bound = Some 4 \<and>
   env_AcquireBuffer env_attach_fails = (GSERROR_OK, Some frame_buffer, 5, 0) \<and>
   env_AttachAndFlushBuffer env_attach_fails \<noteq> GSERROR_OK \<and>
   fst (RelayBufferFromCamera env_attach_fails relay_bound) = relay_bound \<and>
   filter (\<lambda>e. \<not> is_imuCallback e) (snd (RelayBufferFromCamera env_attach_fails relay_bound)) =
     [E_AcquireBuffer, E_close 5,
      E_AttachAndFlushBuffer frame_buffer (- 1) (BufferFlushConfig (Rect 0 0 1920 1080) 0),
      E_ReleaseBuffer frame_buffer (- 1)]"
proof -
  have h: "cameraConsumerSurface relay_bound = Some 1" "encoderSurface relay_bound = Some 4"
    "env_AcquireBuffer env_attach_fails = (GSERROR_OK, Some frame_buffer, 5, 0)"
    "env_AttachAndFlushBuffer env_attach_fails \<noteq> GSERROR_OK"
    by (simp_all add: relay_bound_def env_attach_fails_def env_ok_def)
  have g: "GetWidth frame_buffer = 1920" "GetHeight frame_buffer = 1080"
    by (simp_all add: frame_buffer_def)
  from attach_failure_returns_buffer [OF h] h g show ?thesis by simp
qed

text \<open>
  Claim C6. With a callback set, a cycle that acquired a buffer invokes the IMU callback
  if and only if \<open>GetMetadata\<close> answers \<open>GSERROR_OK\<close> for the attribute and the blob has
  exactly 768 bytes; the invocation carries the frame index of the relay before the cycle
  and the extracted bytes. In either case the cycle goes on to the attach step.
\<close>

theorem metadata_callback_gating:
  assumes "cameraConsumerSurface s = Some cam" and "encoderSurface s = Some enc"
    and "imuCallback s = Some cb"
    and "env_AcquireBuffer env = (GSERROR_OK, Some b, fence, timestamp)"
    and "GetMetadata b ATTRKEY_ROI_METADATA = (mret, imuData)"
  shows "filter is_imuCallback (snd (RelayBufferFromCamera env s)) =
           (if mret = GSERROR_OK \<and> length imuData = 768
            then [E_imuCallback cb (frameIndex s) imuData] else []) \<and>
         E_AttachAndFlushBuffer b (- 1) (BufferFlushConfig (Rect 0 0 (GetWidth b) (GetHeight b)) 0)
           \<in> set (snd (RelayBufferFromCamera env s))"
proof -
  have "filter is_imuCallback (snd (RelayBufferFromCamera env s)) = imu_events s b"
    by (rule callbacks_acquired [OF assms(1,2,4)])
  moreover have "imu_events s b =
      (if mret = GSERROR_OK \<and> length imuData = 768
       then [E_imuCallback cb (frameIndex s) imuData] else [])"
    by (simp add: imu_events_def ExtractImuData_Some [OF assms(5)] assms(3))
  moreover have "E_AttachAndFlushBuffer b (- 1) (BufferFlushConfig (Rect 0 0 (GetWidth b) (GetHeight b)) 0)
           \<in> set (snd (RelayBufferFromCamera env s))"
    by (simp add: RelayBufferFromCamera_acquired [OF assms(1,2,4)])
  ultimately show ?thesis by simp
qed

theorem metadata_callback_gating_witness:
  "cameraConsumerSurface relay_bound = Some 1 \<and> encoderSurface relay_bound = Some 4 \<and>
   imuCallback relay_bound = Some 9 \<and>
   env_AcquireBuffer env_ok = (GSERROR_OK, Some frame_buffer, 5, 0) \<and>
   GetMetadata frame_buffer ATTRKEY_ROI_METADATA = (GSERROR_OK, imu_blob) \<and>
   length imu_blob = 768 \<and>
   filter is_imuCallback (snd (RelayBufferFromCamera env_ok relay_bound)) =
     [E_imuCallback 9 0 imu_blob]"
proof -
  have h: "cameraConsumerSurface relay_bound = Some 1" "encoderSurface relay_bound = Some 4"
    "imuCallback relay_bound = Some 9"
    "env_AcquireBuffer env_ok = (GSERROR_OK, Some frame_buffer, 5, 0)"
    "GetMetadata frame_buffer ATTRKEY_ROI_METADATA = (GSERROR_OK, imu_blob)"
    by (simp_all add: relay_bound_def env_ok_def frame_buffer_def)
  have l: "length imu_blob = 768" "frameIndex relay_bound = 0"
    by (simp_all add: imu_blob_def relay_bound_def)
  from metadata_callback_gating [OF h] h l show ?thesis by simp
qed

text \<open>
  The callback is invoked before the attach is attempted: here the attach fails, the
  buffer goes back to the camera, and the callback has fired all the same.
\<close>

theorem callback_fires_although_forward_fails:
  "fst (AttachBufferToEncoder env_attach_fails relay_bound (Some frame_buffer)) = DCAMERA_BAD_OPERATE \<and>
   RelayBufferFromCamera env_attach_fails relay_bound =
     (relay_bound,
      [E_AcquireBuffer, E_close 5, E_imuCallback 9 0 imu_blob,
       E_AttachAndFlushBuffer frame_buffer (- 1) (BufferFlushConfig (Rect 0 0 1920 1080) 0),
       E_ReleaseBuffer frame_buffer (- 1)])"
  by (simp add: RelayBufferFromCamera_def AttachBufferToEncoder_def ExtractImuData_def
      IMU_DATA_SIZE_def env_attach_fails_def env_ok_def relay_bound_def frame_buffer_def
      imu_blob_def)

text \<open>
  Claim C3, amended. A forward cycle invokes the IMU callback at most once. It does so
  exactly when both surfaces are held, a callback is set, a buffer is acquired and the
  extraction of the IMU data succeeds, whatever the outcome of the attach that follows:
  changing the answer of \<open>AttachAndFlushBuffer\<close> does not change the invocations. The
  invocation comes before the attach is attempted: the calls of a cycle that acquired a
  buffer are, in this order, the acquire, the close of the fence, the callback, the
  attach and, when the attach failed, the release to the camera.
\<close>

theorem metadata_callback_at_most_once:
  "length (filter is_imuCallback (snd (RelayBufferFromCamera env s))) \<le> 1 \<and>
   (filter is_imuCallback (snd (RelayBufferFromCamera env s)) \<noteq> [] \<longleftrightarrow>
      cameraConsumerSurface s \<noteq> None \<and> encoderSurface s \<noteq> None \<and> imuCallback s \<noteq> None \<and>
      (\<exists>b fence timestamp. env_AcquireBuffer env = (GSERROR_OK, Some b, fence, timestamp) \<and>
         fst (ExtractImuData (Some b)))) \<and>
   filter is_imuCallback (snd (RelayBufferFromCamera (env\<lparr>env_AttachAndFlushBuffer := r\<rparr>) s)) =
     filter is_imuCallback (snd (RelayBufferFromCamera env s)) \<and>
   (\<forall>b fence timestamp.
      cameraConsumerSurface s \<noteq> None \<and> encoderSurface s \<noteq> None \<and>
      env_AcquireBuffer env = (GSERROR_OK, Some b, fence, timestamp) \<longrightarrow>
      snd (RelayBufferFromCamera env s) =
        [E_AcquireBuffer] @ (if fence \<ge> 0 then [E_close fence] else []) @
        (if fst (ExtractImuData (Some b))
         then (case imuCallback s of
                 None \<Rightarrow> []
               | Some cb \<Rightarrow> [E_imuCallback cb (frameIndex s) (snd (ExtractImuData (Some b)))])
         else []) @
        [E_AttachAndFlushBuffer b (- 1) (BufferFlushConfig (Rect 0 0 (GetWidth b) (GetHeight b)) 0)] @
        (if env_AttachAndFlushBuffer env \<noteq> GSERROR_OK then [E_ReleaseBuffer b (- 1)] else []))"
proof -
  have count: "length (filter is_imuCallback (snd (RelayBufferFromCamera env s))) \<le> 1 \<and>
   (filter is_imuCallback (snd (RelayBufferFromCamera env s)) \<noteq> [] \<longleftrightarrow>
      cameraConsumerSurface s \<noteq> None \<and> encoderSurface s \<noteq> None \<and> imuCallback s \<noteq> None \<and>
      (\<exists>b fence timestamp. env_AcquireBuffer env = (GSERROR_OK, Some b, fence, timestamp) \<and>
         fst (ExtractImuData (Some b)))) \<and>
   filter is_imuCallback (snd (RelayBufferFromCamera (env\<lparr>env_AttachAndFlushBuffer := r\<rparr>) s)) =
     filter is_imuCallback (snd (RelayBufferFromCamera env s))"
  proof (cases rule: cycle_cases [where s = s and env = env])
    case not_ready
    then show ?thesis
      by (auto simp add: RelayBufferFromCamera_not_ready)
  next
    case (no_buffer cam enc ret buffer fence timestamp)
    have "env_AcquireBuffer (env\<lparr>env_AttachAndFlushBuffer := r\<rparr>) = (ret, buffer, fence, timestamp)"
      using no_buffer(3) by simp
    from RelayBufferFromCamera_no_buffer [OF no_buffer(1,2) this no_buffer(4)]
      RelayBufferFromCamera_no_buffer [OF no_buffer]
    show ?thesis using no_buffer(3,4) by auto
  next
    case (acquired cam enc b fence timestamp)
    have "env_AcquireBuffer (env\<lparr>env_AttachAndFlushBuffer := r\<rparr>) = (GSERROR_OK, Some b, fence, timestamp)"
      using acquired(3) by simp
    from callbacks_acquired [OF acquired(1,2) this] callbacks_acquired [OF acquired]
    show ?thesis
      using acquired imu_events_length [of s b] imu_events_nonempty [of s b] by auto
  qed
  have order: "snd (RelayBufferFromCamera env s) =
        [E_AcquireBuffer] @ (if fence \<ge> 0 then [E_close fence] else []) @
        (if fst (ExtractImuData (Some b))
         then (case imuCallback s of
                 None \<Rightarrow> []
               | Some cb \<Rightarrow> [E_imuCallback cb (frameIndex s) (snd (ExtractImuData (Some b)))])
         else []) @
        [E_AttachAndFlushBuffer b (- 1) (BufferFlushConfig (Rect 0 0 (GetWidth b) (GetHeight b)) 0)] @
        (if env_AttachAndFlushBuffer env \<noteq> GSERROR_OK then [E_ReleaseBuffer b (- 1)] else [])"
    if h: "cameraConsumerSurface s \<noteq> None \<and> encoderSurface s \<noteq> None \<and>
      env_AcquireBuffer env = (GSERROR_OK, Some b, fence, timestamp)"
    for b fence timestamp
  proof -
    from h obtain cam enc where ce: "cameraConsumerSurface s = Some cam" "encoderSurface s = Some enc"
      by auto
    from h have acq: "env_AcquireBuffer env = (GSERROR_OK, Some b, fence, timestamp)" by simp
    show ?thesis
      by (simp add: RelayBufferFromCamera_acquired [OF ce acq] imu_events_def)
  qed
  from count order show ?thesis by blast
qed

theorem metadata_callback_at_most_once_witness:
  "length (filter is_imuCallback (snd (RelayBufferFromCamera env_attach_fails relay_bound))) \<le> 1 \<and>
   filter is_imuCallback (snd (RelayBufferFromCamera env_attach_fails relay_bound)) \<noteq> [] \<and>
   filter is_imuCallback (snd (RelayBufferFromCamera env_ok relay_bound)) =
     filter is_imuCallback (snd (RelayBufferFromCamera env_attach_fails relay_bound)) \<and>
   snd (RelayBufferFromCamera env_attach_fails relay_bound) =
     [E_AcquireBuffer, E_close 5, E_imuCallback 9 0 imu_blob,
      E_AttachAndFlushBuffer frame_buffer (- 1) (BufferFlushConfig (Rect 0 0 1920 1080) 0),
      E_ReleaseBuffer frame_buffer (- 1)]"
proof -
  have e: "env_AcquireBuffer env_attach_fails = (GSERROR_OK, Some frame_buffer, 5, 0)"
    "env_AttachAndFlushBuffer env_attach_fails \<noteq> GSERROR_OK"
    by (simp_all add: env_attach_fails_def env_ok_def)
  have x: "ExtractImuData (Some frame_buffer) = (True, imu_blob)"
    by (simp add: ExtractImuData_def IMU_DATA_SIZE_def frame_buffer_def imu_blob_def)
  have r: "env_attach_fails\<lparr>env_AttachAndFlushBuffer := GSERROR_OK\<rparr> = env_ok"
    by (simp add: env_attach_fails_def env_ok_def)
  have s: "cameraConsumerSurface relay_bound \<noteq> None" "encoderSurface relay_bound \<noteq> None"
    "imuCallback relay_bound = Some 9" "frameIndex relay_bound = 0"
    by (simp_all add: relay_bound_def)
  have g: "GetWidth frame_buffer = 1920" "GetHeight frame_buffer = 1080"
    by (simp_all add: frame_buffer_def)
  note T = metadata_callback_at_most_once [of env_attach_fails relay_bound GSERROR_OK]
  from T have a: "length (filter is_imuCallback (snd (RelayBufferFromCamera env_attach_fails relay_bound))) \<le> 1"
    by (rule conjunct1)
  from T e x s have b: "filter is_imuCallback (snd (RelayBufferFromCamera env_attach_fails relay_bound)) \<noteq> []"
    by simp
  from T have c: "filter is_imuCallback (snd (RelayBufferFromCamera env_ok relay_bound)) =
     filter is_imuCallback (snd (RelayBufferFromCamera env_attach_fails relay_bound))"
    unfolding r by simp
  from T have "cameraConsumerSurface relay_bound \<noteq> None \<and> encoderSurface relay_bound \<noteq> None \<and>
      env_AcquireBuffer env_attach_fails = (GSERROR_OK, Some frame_buffer, 5, 0) \<longrightarrow>
      snd (RelayBufferFromCamera env_attach_fails relay_bound) =
        [E_AcquireBuffer] @ (if (5::int) \<ge> 0 then [E_close 5] else []) @
        (if fst (ExtractImuData (Some frame_buffer))
         then (case imuCallback relay_bound of
                 None \<Rightarrow> []
               | Some cb \<Rightarrow> [E_imuCallback cb (frameIndex relay_bound) (snd (ExtractImuData (Some frame_buffer)))])
         else []) @
        [E_AttachAndFlushBuffer frame_buffer (- 1) (BufferFlushConfig (Rect 0 0 (GetWidth frame_buffer) (GetHeight frame_buffer)) 0)] @
        (if env_AttachAndFlushBuffer env_attach_fails \<noteq> GSERROR_OK then [E_ReleaseBuffer frame_buffer (- 1)] else [])"
    by blast
  with e x s g have d: "snd (RelayBufferFromCamera env_attach_fails relay_bound) =
     [E_AcquireBuffer, E_close 5, E_imuCallback 9 0 imu_blob,
      E_AttachAndFlushBuffer frame_buffer (- 1) (BufferFlushConfig (Rect 0 0 1920 1080) 0),
      E_ReleaseBuffer frame_buffer (- 1)]"
    by simp
  from a b c d show ?thesis by simp
qed

text \<open>
  Claim C7. A forward cycle whose attach-and-flush succeeds stores the buffer in the
  registry under its address and then adds one to the frame index. From frame index 0
  the callback, when it fires, carries index 0 and the cycle ends with index 1.
\<close>

theorem forward_success_registers_then_counts:
  assumes "cameraConsumerSurface s = Some cam" and "encoderSurface s = Some enc"
    and "env_AcquireBuffer env = (GSERROR_OK, Some b, fence, timestamp)"
    and "env_AttachAndFlushBuffer env = GSERROR_OK"
  shows "fst (RelayBufferFromCamera env s) =
           (s\<lparr>bufferMap := (bufferMap s)(GetVirAddr b \<mapsto> b)\<rparr>)\<lparr>frameIndex := frameIndex s + 1\<rparr> \<and>
         bufferMap (fst (RelayBufferFromCamera env s)) (GetVirAddr b) = Some b \<and>
         (frameIndex s = 0 \<longrightarrow> frameIndex (fst (RelayBufferFromCamera env s)) = 1) \<and>
         (frameIndex s = 0 \<and> imuCallback s = Some cb \<and>
          GetMetadata b ATTRKEY_ROI_METADATA = (GSERROR_OK, imuData) \<and> length imuData = 768 \<longrightarrow>
            filter is_imuCallback (snd (RelayBufferFromCamera env s)) = [E_imuCallback cb 0 imuData])"
proof -
  have st: "fst (RelayBufferFromCamera env s) =
      (s\<lparr>bufferMap := (bufferMap s)(GetVirAddr b \<mapsto> b)\<rparr>)\<lparr>frameIndex := frameIndex s + 1\<rparr>"
    using assms(4) by (simp add: RelayBufferFromCamera_acquired [OF assms(1-3)])
  have cb: "filter is_imuCallback (snd (RelayBufferFromCamera env s)) = [E_imuCallback cb 0 imuData]"
    if "frameIndex s = 0" "imuCallback s = Some cb"
      "GetMetadata b ATTRKEY_ROI_METADATA = (GSERROR_OK, imuData)" "length imuData = 768"
    using that
    by (simp add: callbacks_acquired [OF assms(1-3)] imu_events_def ExtractImuData_Some [OF that(3)])
  show ?thesis
    using cb by (simp add: st)
qed

theorem forward_success_registers_then_counts_witness:
  "cameraConsumerSurface relay_bound = Some 1 \<and> encoderSurface relay_bound = Some 4 \<and>
   env_AcquireBuffer env_ok = (GSERROR_OK, Some frame_buffer, 5, 0) \<and>
   env_AttachAndFlushBuffer env_ok = GSERROR_OK \<and>
   frameIndex relay_bound = 0 \<and> imuCallback relay_bound = Some 9 \<and>
   GetMetadata frame_buffer ATTRKEY_ROI_METADATA = (GSERROR_OK, imu_blob) \<and> length imu_blob = 768 \<and>
   fst (RelayBufferFromCamera env_ok relay_bound) = relay_inflight \<and>
   frameIndex (fst (RelayBufferFromCamera env_ok relay_bound)) = 1 \<and>
   filter is_imuCallback (snd (RelayBufferFromCamera env_ok relay_bound)) = [E_imuCallback 9 0 imu_blob]"
proof -
  have h: "cameraConsumerSurface relay_bound = Some 1" "encoderSurface relay_bound = Some 4"
    "env_AcquireBuffer env_ok = (GSERROR_OK, Some frame_buffer, 5, 0)"
    "env_AttachAndFlushBuffer env_ok = GSERROR_OK"
    by (simp_all add: relay_bound_def env_ok_def)
  have m: "frameIndex relay_bound = 0" "imuCallback relay_bound = Some 9"
    "GetMetadata frame_buffer ATTRKEY_ROI_METADATA = (GSERROR_OK, imu_blob)" "length imu_blob = 768"
    by (simp_all add: relay_bound_def frame_buffer_def imu_blob_def)
  have i: "(relay_bound\<lparr>bufferMap := (bufferMap relay_bound)(GetVirAddr frame_buffer \<mapsto> frame_buffer)\<rparr>)
             \<lparr>frameIndex := frameIndex relay_bound + 1\<rparr> = relay_inflight"
    by (simp add: relay_bound_def relay_inflight_def frame_buffer_def)
  have f: "frameIndex relay_inflight = 1"
    by (simp add: relay_inflight_def)
  from forward_success_registers_then_counts [OF h, of 9 imu_blob] h m i f show ?thesis by simp
qed

text \<open>
  \<open>SetEncoderSurface\<close> stores the surface before it registers the release listener and
  does not take it back when the registration fails. After such a failed call the
  relay is running with a non-null \<open>encoderSurface\<close>, and a notification acquires a buffer,
  forwards it, records it and counts the frame.
\<close>

theorem notification_after_failed_bind_forwards:
  "Init env_bind_fails 1920 1080 0 SurfaceBufferRelay_new =
     (DCAMERA_OK, relay_initialized,
      [E_Create, E_SetDefaultWidthAndHeight 1920 1080, E_SetDefaultFormat 0,
       E_SetDefaultUsage [BUFFER_USAGE_CPU_READ, BUFFER_USAGE_MEM_DMA],
       E_RegisterConsumerListener, E_GetProducer, E_CreateSurfaceAsProducer 2]) \<and>
   SetEncoderSurface env_bind_fails (Some 4) relay_initialized =
     (DCAMERA_BAD_OPERATE, relay_bind_failed, [E_RegisterReleaseListener]) \<and>
   OnBufferAvailable env_bind_fails relay_bind_failed =
     (relay_bind_failed\<lparr>bufferMap := [4096 \<mapsto> frame_buffer], frameIndex := 1\<rparr>,
      [E_AcquireBuffer, E_close 5,
       E_AttachAndFlushBuffer frame_buffer (- 1) (BufferFlushConfig (Rect 0 0 1920 1080) 0)])"
  by (simp add: Init_def SetEncoderSurface_def OnBufferAvailable_def RelayBufferFromCamera_def
      AttachBufferToEncoder_def ExtractImuData_def IMU_DATA_SIZE_def SurfaceBufferRelay_new_def
      env_bind_fails_def env_ok_def relay_initialized_def relay_bind_failed_def frame_buffer_def
      imu_blob_def)

text \<open>
  Claim C10, amended. While the running flag is true and \<open>encoderSurface\<close> is null, a
  buffer-available notification passes the flag, enters \<open>RelayBufferFromCamera\<close> and
  returns at its null check with no call issued (no acquire) and the relay unchanged.
  That is the state after a successful \<open>Init\<close> of a relay without encoder surface; setting
  the callback and a \<open>SetEncoderSurface\<close> with a null surface keep it, and it ends with the
  first \<open>SetEncoderSurface\<close> given a non-null surface, which stores the pointer whether or
  not the registration of the release listener then succeeds.
\<close>

theorem notification_with_null_encoder_is_noop:
  "(isRunning s \<and> encoderSurface s = None \<longrightarrow>
      OnBufferAvailable env s = RelayBufferFromCamera env s \<and>
      RelayBufferFromCamera env s = (s, [])) \<and>
   (encoderSurface s = None \<and> Init env0 width height format s = (DCAMERA_OK, s', ev) \<longrightarrow>
      isRunning s' \<and> encoderSurface s' = None) \<and>
   isRunning (SetImuDataCallback callback s) = isRunning s \<and>
   encoderSurface (SetImuDataCallback callback s) = encoderSurface s \<and>
   SetEncoderSurface env None s = (DCAMERA_BAD_VALUE, s, []) \<and>
   (surface \<noteq> None \<longrightarrow> encoderSurface (fst (snd (SetEncoderSurface env surface s))) = surface)"
proof -
  have noop: "OnBufferAvailable env s = RelayBufferFromCamera env s \<and> RelayBufferFromCamera env s = (s, [])"
    if "isRunning s \<and> encoderSurface s = None"
    using that by (simp add: OnBufferAvailable_def RelayBufferFromCamera_not_ready)
  have init: "isRunning s' \<and> encoderSurface s' = None"
    if "encoderSurface s = None \<and> Init env0 width height format s = (DCAMERA_OK, s', ev)"
    using that
    by (auto simp add: Init_def Let_def split: if_splits option.splits)
  have cb: "isRunning (SetImuDataCallback callback s) = isRunning s \<and>
      encoderSurface (SetImuDataCallback callback s) = encoderSurface s"
    by (simp add: SetImuDataCallback_def)
  have null: "SetEncoderSurface env None s = (DCAMERA_BAD_VALUE, s, [])"
    by (simp add: SetEncoderSurface_def)
  have stored: "encoderSurface (fst (snd (SetEncoderSurface env surface s))) = surface"
    if "surface \<noteq> None"
    using that by (auto simp add: SetEncoderSurface_def Let_def)
  from noop init cb null stored show ?thesis by blast
qed

theorem notification_with_null_encoder_is_noop_witness:
  "Init env_ok 1920 1080 0 SurfaceBufferRelay_new =
     (DCAMERA_OK, relay_initialized,
      [E_Create, E_SetDefaultWidthAndHeight 1920 1080, E_SetDefaultFormat 0,
       E_SetDefaultUsage [BUFFER_USAGE_CPU_READ, BUFFER_USAGE_MEM_DMA],
       E_RegisterConsumerListener, E_GetProducer, E_CreateSurfaceAsProducer 2]) \<and>
   encoderSurface SurfaceBufferRelay_new = None \<and>
   isRunning relay_initialized \<and> encoderSurface relay_initialized = None \<and>
   OnBufferAvailable env_ok relay_initialized = (relay_initialized, []) \<and>
   isRunning (SetImuDataCallback (Some 9) relay_initialized) \<and>
   encoderSurface (SetImuDataCallback (Some 9) relay_initialized) = None \<and>
   OnBufferAvailable env_ok (SetImuDataCallback (Some 9) relay_initialized) =
     (SetImuDataCallback (Some 9) relay_initialized, []) \<and>
   Some 4 \<noteq> (None :: Surface option) \<and>
   encoderSurface (fst (snd (SetEncoderSurface env_bind_fails (Some 4) relay_initialized))) = Some 4"
proof -
  note I = relay_initialized_reached
  have n: "encoderSurface SurfaceBufferRelay_new = None"
    by (simp add: SurfaceBufferRelay_new_def)
  from notification_with_null_encoder_is_noop
         [of SurfaceBufferRelay_new env_ok env_ok 1920 1080 0 relay_initialized _ "Some 9" None] n I
  have a: "isRunning relay_initialized \<and> encoderSurface relay_initialized = None"
    by blast
  with notification_with_null_encoder_is_noop [of relay_initialized env_ok]
  have b: "OnBufferAvailable env_ok relay_initialized = (relay_initialized, [])"
    by simp
  from notification_with_null_encoder_is_noop [of relay_initialized env_ok _ _ _ _ _ _ "Some 9"] a
  have c: "isRunning (SetImuDataCallback (Some 9) relay_initialized) \<and>
     encoderSurface (SetImuDataCallback (Some 9) relay_initialized) = None"
    by simp
  with notification_with_null_encoder_is_noop [of "SetImuDataCallback (Some 9) relay_initialized" env_ok]
  have d: "OnBufferAvailable env_ok (SetImuDataCallback (Some 9) relay_initialized) =
     (SetImuDataCallback (Some 9) relay_initialized, [])"
    by simp
  from notification_with_null_encoder_is_noop
         [of relay_initialized env_bind_fails _ _ _ _ _ _ _ "Some 4"]
  have e: "encoderSurface (fst (snd (SetEncoderSurface env_bind_fails (Some 4) relay_initialized))) = Some 4"
    by simp
  from I n a b c d e show ?thesis by simp
qed

section \<open>The release path\<close>

text \<open>
  The release callback never looks the buffer up in the registry. With an empty
  registry, the release of \<open>frame_buffer\<close> still calls \<open>ReleaseBuffer\<close> on the camera
  surface for it.
\<close>

theorem unregistered_release_reaches_upstream:
  "bufferMap relay_bound (GetVirAddr frame_buffer) = None \<and>
   OnEncoderReleaseBuffer env_ok relay_bound (Some frame_buffer) 7 =
     Inr (relay_bound, [E_RequestAndDetachBuffer frame_buffer 7, E_ReleaseBuffer frame_buffer 7])"
  by (simp add: OnEncoderReleaseBuffer_def ReturnBufferToCamera_def relay_bound_def env_ok_def)

text \<open>
  Claim C1, amended. A release callback with a non-null buffer whose address is absent
  from the registry, on a relay whose encoder surface is set, is handled like any other
  release: the relay requests the detach from the encoder surface and, when it holds a
  camera surface, returns the buffer to it with the given fence; the registry, and the
  whole relay, is unchanged and the callback does not crash.
\<close>

theorem release_of_unregistered_buffer:
  assumes "bufferMap s (GetVirAddr b) = None" and "encoderSurface s = Some enc"
  shows "OnEncoderReleaseBuffer env s (Some b) fence =
           Inr (s, E_RequestAndDetachBuffer b fence #
                     (if cameraConsumerSurface s = None then [] else [E_ReleaseBuffer b fence]))"
proof -
  have "(bufferMap s)(GetVirAddr b := None) = bufferMap s"
    using assms(1) by (rule fun_upd_idem)
  then show ?thesis
    by (simp add: OnEncoderReleaseBuffer_bound [OF assms(2)])
qed

theorem release_of_unregistered_buffer_witness:
  "bufferMap relay_bound (GetVirAddr frame_buffer) = None \<and> encoderSurface relay_bound = Some 4 \<and>
   cameraConsumerSurface relay_bound \<noteq> None \<and>
   OnEncoderReleaseBuffer env_ok relay_bound (Some frame_buffer) 7 =
     Inr (relay_bound, [E_RequestAndDetachBuffer frame_buffer 7, E_ReleaseBuffer frame_buffer 7])"
proof -
  have h: "bufferMap relay_bound (GetVirAddr frame_buffer) = None" "encoderSurface relay_bound = Some 4"
    by (simp_all add: relay_bound_def)
  have c: "cameraConsumerSurface relay_bound \<noteq> None"
    by (simp add: relay_bound_def)
  from release_of_unregistered_buffer [OF h, of env_ok 7] h c show ?thesis by simp
qed

section \<open>Initialization and teardown\<close>

text \<open>
  When the registration of the listener fails, \<open>Init\<close> returns \<open>DCAMERA_BAD_OPERATE\<close>
  and the relay keeps the consumer surface it has just created.
\<close>

theorem Init_listener_failure_keeps_endpoint:
  "Init env_listener_fails 1920 1080 0 SurfaceBufferRelay_new =
     (DCAMERA_BAD_OPERATE, SurfaceBufferRelay_new\<lparr>cameraConsumerSurface := Some 1\<rparr>,
      [E_Create, E_SetDefaultWidthAndHeight 1920 1080, E_SetDefaultFormat 0,
       E_SetDefaultUsage [BUFFER_USAGE_CPU_READ, BUFFER_USAGE_MEM_DMA],
       E_RegisterConsumerListener])"
  by (simp add: Init_def env_listener_fails_def env_ok_def)

text \<open>
  Claim C4, amended. \<open>Init\<close> returns \<open>DCAMERA_OK\<close> exactly when every sub-step succeeds,
  and only then sets the running flag. When a sub-step fails it returns
  \<open>DCAMERA_BAD_OPERATE\<close> for the listener registration and \<open>DCAMERA_INIT_ERR\<close> otherwise,
  leaves the running flag as it was, and the relay keeps holding the consumer surface
  that \<open>Create\<close> returned.
\<close>

theorem Init_running_only_on_success:
  assumes "Init env width height format s = (r, s', ev)"
  shows "(r = DCAMERA_OK \<longleftrightarrow>
            env_Create env \<noteq> None \<and> env_RegisterConsumerListener env = GSERROR_OK \<and>
            env_GetProducer env \<noteq> None \<and> env_CreateSurfaceAsProducer env \<noteq> None) \<and>
         (r = DCAMERA_OK \<longrightarrow> isRunning s') \<and>
         (r \<noteq> DCAMERA_OK \<longrightarrow>
            isRunning s' = isRunning s \<and> cameraConsumerSurface s' = env_Create env \<and>
            r = (if env_Create env \<noteq> None \<and> env_RegisterConsumerListener env \<noteq> GSERROR_OK
                 then DCAMERA_BAD_OPERATE else DCAMERA_INIT_ERR))"
  using assms
  by (cases "env_Create env"; cases "env_RegisterConsumerListener env = GSERROR_OK";
      cases "env_GetProducer env"; cases "env_CreateSurfaceAsProducer env")
     (auto simp add: Init_def)

theorem Init_running_only_on_success_witness:
  "Init env_listener_fails 1920 1080 0 SurfaceBufferRelay_new =
     (DCAMERA_BAD_OPERATE, SurfaceBufferRelay_new\<lparr>cameraConsumerSurface := Some 1\<rparr>,
      [E_Create, E_SetDefaultWidthAndHeight 1920 1080, E_SetDefaultFormat 0,
       E_SetDefaultUsage [BUFFER_USAGE_CPU_READ, BUFFER_USAGE_MEM_DMA],
       E_RegisterConsumerListener]) \<and>
   DCAMERA_BAD_OPERATE \<noteq> DCAMERA_OK \<and>
   isRunning (SurfaceBufferRelay_new\<lparr>cameraConsumerSurface := Some 1\<rparr>) = isRunning SurfaceBufferRelay_new \<and>
   cameraConsumerSurface (SurfaceBufferRelay_new\<lparr>cameraConsumerSurface := Some 1\<rparr>) =
     env_Create env_listener_fails"
proof -
  have i: "Init env_listener_fails 1920 1080 0 SurfaceBufferRelay_new =
     (DCAMERA_BAD_OPERATE, SurfaceBufferRelay_new\<lparr>cameraConsumerSurface := Some 1\<rparr>,
      [E_Create, E_SetDefaultWidthAndHeight 1920 1080, E_SetDefaultFormat 0,
       E_SetDefaultUsage [BUFFER_USAGE_CPU_READ, BUFFER_USAGE_MEM_DMA],
       E_RegisterConsumerListener])"
    by (simp add: Init_def env_listener_fails_def env_ok_def)
  from Init_running_only_on_success [OF i] i show ?thesis by simp
qed

text \<open>
  Claim C9. \<open>Release\<close> is idempotent: a second call changes nothing and issues no call.
  The first statement of each call clears the running flag, and the flag stays false in
  every later step; the listener is unregistered through the camera surface the relay
  holds (after a first \<open>Release\<close> there is none left), both surface references and the
  producer surface are dropped and the registry is emptied. The mutex around the clearing
  has no counterpart in this sequential model.
\<close>

theorem Release_idempotent:
  "Release (fst (Release s)) = (fst (Release s), []) \<and>
   Release_trace s ! 0 = (s\<lparr>isRunning := False\<rparr>, []) \<and>
   list_all (\<lambda>p. \<not> isRunning (fst p)) (Release_trace s) \<and>
   Release s =
     (s\<lparr>isRunning := False, cameraConsumerSurface := None, cameraProducerSurface := None,
        encoderSurface := None, bufferMap := Map.empty\<rparr>,
      if cameraConsumerSurface s \<noteq> None then [E_UnregisterConsumerListener] else [])"
  by (simp add: Release_result) (simp add: Release_trace_def Let_def)

theorem Release_idempotent_witness:
  "Release relay_inflight = (relay_released, [E_UnregisterConsumerListener]) \<and>
   Release relay_released = (relay_released, []) \<and>
   list_all (\<lambda>p. \<not> isRunning (fst p)) (Release_trace relay_inflight)"
proof -
  have a: "relay_inflight\<lparr>isRunning := False, cameraConsumerSurface := None,
      cameraProducerSurface := None, encoderSurface := None, bufferMap := Map.empty\<rparr> = relay_released"
    by (simp add: relay_inflight_def relay_released_def)
  have c: "cameraConsumerSurface relay_inflight \<noteq> None"
    by (simp add: relay_inflight_def)
  note R = Release_idempotent [of relay_inflight]
  from R have i: "Release (fst (Release relay_inflight)) = (fst (Release relay_inflight), [])"
    by (rule conjunct1)
  from R a c have r: "Release relay_inflight = (relay_released, [E_UnregisterConsumerListener])"
    by simp
  from R have l: "list_all (\<lambda>p. \<not> isRunning (fst p)) (Release_trace relay_inflight)"
    by simp
  from i r have "Release relay_released = (relay_released, [])" by simp
  with r l show ?thesis by simp
qed

text \<open>
  Claim C2. After \<open>Release\<close>, a buffer-available notification is a no-op and so is a
  release callback with a null buffer. A release callback with a non-null buffer is not:
  \<open>OnEncoderReleaseBuffer\<close> calls \<open>RequestAndDetachBuffer\<close> through \<open>encoderSurface\<close>, which
  \<open>Release\<close> has set to null, without the null check that \<open>RelayBufferFromCamera\<close>,
  \<open>AttachBufferToEncoder\<close> and \<open>ReturnBufferToCamera\<close> make.
\<close>

theorem callbacks_after_Release:
  "OnBufferAvailable env (fst (Release s)) = (fst (Release s), []) \<and>
   OnEncoderReleaseBuffer env (fst (Release s)) None fence = Inr (fst (Release s), []) \<and>
   OnEncoderReleaseBuffer env (fst (Release s)) (Some b) fence = Inl NullPointerDereference"
  by (simp add: Release_result OnBufferAvailable_def OnEncoderReleaseBuffer_def)

text \<open>The same at the relay released with one frame in flight.\<close>

theorem callbacks_after_Release_witness:
  "fst (Release relay_inflight) = relay_released \<and>
   OnBufferAvailable env_ok relay_released = (relay_released, []) \<and>
   OnEncoderReleaseBuffer env_ok relay_released (Some frame_buffer) (- 1) = Inl NullPointerDereference"
proof -
  have r: "fst (Release relay_inflight) = relay_released"
    by (simp add: Release_result relay_inflight_def relay_released_def)
  from callbacks_after_Release [of env_ok relay_inflight "- 1" frame_buffer] r
  show ?thesis by simp
qed

end
